theory Spec2Isabelle
  imports Complex_Main "HOL-Library.AList" "HOL-Library.Sublist"
begin

section \<open>Python values and errors\<close>

text \<open>
  The exceptions the modelled functions can end with. \<open>SystemExit\<close> is what the
  builtin \<open>exit()\<close> raises; \<open>OSError\<close> is what writing a file raises when the file
  cannot be written, with the file's name.
\<close>

datatype py_error =
    KeyError string | AttributeError | TypeError | RuntimeError string | OSError string | SystemExit

text \<open>
  The values stored in the profile database: a string, a dictionary (\<open>isinstance(v, dict)\<close>
  holds exactly for \<open>PyDict\<close>), or any other object (a data frame, a number, \<open>None\<close>),
  which is never equal to a string. A dictionary is kept as the list of its items in
  insertion order.
\<close>

datatype 'o pyval = PyStr string | PyDict "(string \<times> 'o pyval) list" | PyObj 'o

type_synonym 'o pydict = "(string \<times> 'o pyval) list"

fun isinstance_dict :: "'o pyval \<Rightarrow> bool" where
  "isinstance_dict (PyDict d) = True"
| "isinstance_dict v = False"

text \<open>\<open>v.get(key)\<close> on a value that passed \<open>isinstance(v, dict)\<close>; \<open>None\<close> when the key is absent.\<close>

fun dict_get :: "'o pyval \<Rightarrow> string \<Rightarrow> 'o pyval option" where
  "dict_get (PyDict d) key = map_of d key"
| "dict_get v key = None"

section \<open>emobpy/save\_profiles.py and emobpy/calculate\_consumption.py\<close>

text \<open>
  \<open>get_consumption_profiles\<close> reads the database from disk (\<open>DataBase("db")\<close>,
  \<open>db.loadfiles("db")\<close>); the loaded dictionary \<open>db.db\<close> is the argument here. The
  dictionary comprehension keeps the items that pass the test, in their order. The function
  is defined twice in the repository with the same body.
\<close>

definition get_consumption_profiles :: "'o pydict \<Rightarrow> 'o pydict" where
  "get_consumption_profiles db =
     filter (\<lambda>(k, v). isinstance_dict v \<and> dict_get v ''kind'' = Some (PyStr ''consumption'')) db"

definition calculate_consumption_get_consumption_profiles :: "'o pydict \<Rightarrow> 'o pydict" where
  "calculate_consumption_get_consumption_profiles db =
     filter (\<lambda>(k, v). isinstance_dict v \<and> dict_get v ''kind'' = Some (PyStr ''consumption'')) db"

text \<open>
  \<open>get_timeserie_from_consumption_profiles\<close>. The argument is a dictionary whose values
  are dictionaries, as the docstring says; \<open>'v\<close> is the type of what a profile stores under
  a key. The function prints, so the lines printed so far are passed in and returned, one entry
  for each call of \<open>print\<close>. Strings are the UTF-8 bytes of the source's literals.
\<close>

definition warning_sign :: string where
  "warning_sign = [CHR 0xE2, CHR 0x9A, CHR 0xA0, CHR 0xEF, CHR 0xB8, CHR 0x8F]"

definition cross_mark :: string where
  "cross_mark = [CHR 0xE2, CHR 0x9D, CHR 0x8C]"

definition check_mark :: string where
  "check_mark = [CHR 0xE2, CHR 0x9C, CHR 0x85]"

definition missing_timeseries_warning :: "string \<Rightarrow> string" where
  "missing_timeseries_warning key =
     warning_sign @ '' 'timeseries' not found in profile '' @ [CHR 0x27] @ key @ [CHR 0x27] @ ''.''"

definition no_timeseries_message :: string where
  "no_timeseries_message =
     cross_mark @ '' No 'timeseries' found in any profile. Please ensure consumption was calculated.''"

text \<open>
  The loop body: \<open>timeseries_data[key] = profile["timeseries"]\<close> when the key is in the
  profile, a printed warning otherwise. A dictionary assignment replaces the value of a key
  already there and appends a new key at the end, which is \<open>AList.update\<close>.
\<close>

fun timeserie_loop ::
  "(string \<times> (string \<times> 'v) list) list \<Rightarrow> (string \<times> 'v) list \<times> string list \<Rightarrow>
   (string \<times> 'v) list \<times> string list" where
  "timeserie_loop [] (timeseries_data, out) = (timeseries_data, out)"
| "timeserie_loop ((key, profile) # items) (timeseries_data, out) =
     (case map_of profile ''timeseries'' of
        Some ts \<Rightarrow> timeserie_loop items (AList.update key ts timeseries_data, out)
      | None \<Rightarrow> timeserie_loop items (timeseries_data, out @ [missing_timeseries_warning key]))"

definition get_timeserie_from_consumption_profiles ::
  "(string \<times> (string \<times> 'v) list) list \<Rightarrow> string list \<Rightarrow> (string \<times> 'v) list \<times> string list" where
  "get_timeserie_from_consumption_profiles consumption_profiles out =
     (let (timeseries_data, out) = timeserie_loop consumption_profiles ([], out)
      in if timeseries_data = [] then (timeseries_data, out @ [no_timeseries_message])
         else (timeseries_data, out))"

text \<open>What one item of the argument contributes to the result: its name with its timeseries, if it has one.\<close>

definition timeseries_item :: "string \<times> (string \<times> 'v) list \<Rightarrow> (string \<times> 'v) option" where
  "timeseries_item = (\<lambda>(key, profile). map_option (Pair key) (map_of profile ''timeseries''))"






section \<open>emobpy/create\_rules.py\<close>

text \<open>
  \<open>get_rules_for_group\<close> receives references to dictionaries that its caller keeps, and
  the claim about it speaks of mutation, so dictionaries live in a store here: the heap is the
  list of all dictionary objects, a reference is an index into it, and a new dictionary is
  appended. A value is a reference to a dictionary or anything else (\<open>Atom\<close>). For these
  dictionaries only the keys and their values matter, so each is a map.
\<close>

datatype 'a val = Ref nat | Atom 'a

type_synonym 'a rules = "string \<rightharpoonup> 'a val"

type_synonym 'a heap = "'a rules list"

definition as_dict :: "'a heap \<Rightarrow> 'a val \<Rightarrow> 'a rules option" where
  "as_dict h v = (case v of Ref a \<Rightarrow> (if a < length h then Some (h ! a) else None) | Atom x \<Rightarrow> None)"

text \<open>A dictionary display \<open>{...}\<close> creates a new object.\<close>

definition new_dict :: "'a rules \<Rightarrow> 'a heap \<Rightarrow> 'a val \<times> 'a heap" where
  "new_dict d h = (Ref (length h), h @ [d])"

text \<open>\<open>obj.get(key, dflt)\<close>: only a dictionary has the method.\<close>

definition py_get :: "'a heap \<Rightarrow> 'a val \<Rightarrow> string \<Rightarrow> 'a val \<Rightarrow> py_error + 'a val" where
  "py_get h obj key dflt =
     (case as_dict h obj of
        None \<Rightarrow> Inl AttributeError
      | Some d \<Rightarrow> Inr (case d key of Some v \<Rightarrow> v | None \<Rightarrow> dflt))"

text \<open>
  \<open>{**base_day_rules, **group_specs.get(day, {})}\<close>: the default \<open>{}\<close> is created before
  \<open>get\<close> is called; unpacking something that is not a dictionary is a \<open>TypeError\<close>; in the
  new dictionary the later operand wins (\<open>++\<close>).
\<close>

definition merged_rules :: "'a heap \<Rightarrow> 'a val \<Rightarrow> 'a val \<Rightarrow> string \<Rightarrow> py_error + 'a val \<times> 'a heap" where
  "merged_rules h base_day_rules group_specs day =
     (case as_dict h base_day_rules of
        None \<Rightarrow> Inl TypeError
      | Some base \<Rightarrow>
          (let (empty_dict, h1) = new_dict Map.empty h in
           case py_get h1 group_specs day empty_dict of
             Inl e \<Rightarrow> Inl e
           | Inr day_specs \<Rightarrow>
               (case as_dict h1 day_specs of
                  None \<Rightarrow> Inl TypeError
                | Some specs \<Rightarrow> Inr (new_dict (base ++ specs) h1))))"

definition get_rules_for_group ::
  "'a heap \<Rightarrow> string \<Rightarrow> 'a val \<Rightarrow> 'a val \<Rightarrow> py_error + 'a val \<times> 'a heap" where
  "get_rules_for_group h group' specifics_rules base_day_rules =
     (let (empty_dict, h1) = new_dict Map.empty h in
      case py_get h1 specifics_rules group' empty_dict of
        Inl e \<Rightarrow> Inl e
      | Inr group_specs \<Rightarrow>
          (case merged_rules h1 base_day_rules group_specs ''weekday'' of
             Inl e \<Rightarrow> Inl e
           | Inr (weekday, h2) \<Rightarrow>
               (case merged_rules h2 base_day_rules group_specs ''weekend'' of
                  Inl e \<Rightarrow> Inl e
                | Inr (weekend, h3) \<Rightarrow>
                    Inr (new_dict [''weekday'' \<mapsto> weekday, ''weekend'' \<mapsto> weekend] h3))))"

text \<open>
  Reading the arguments and the result. \<open>group_day_rules\<close> is what \<open>specifics_rules\<close>
  holds for a group and a day (nothing when the group or the day is absent);
  \<open>rules_of_day\<close> is the dictionary a result holds under \<open>weekday\<close> or \<open>weekend\<close>.
\<close>

definition day_rules :: "'a heap \<Rightarrow> 'a rules \<Rightarrow> string \<Rightarrow> 'a rules" where
  "day_rules h group_dict day =
     (case group_dict day of
        None \<Rightarrow> Map.empty
      | Some w \<Rightarrow> (case as_dict h w of None \<Rightarrow> Map.empty | Some wd \<Rightarrow> wd))"

definition group_day_rules :: "'a heap \<Rightarrow> 'a val \<Rightarrow> string \<Rightarrow> string \<Rightarrow> 'a rules" where
  "group_day_rules h specifics_rules group' day =
     (case as_dict h specifics_rules of
        None \<Rightarrow> Map.empty
      | Some sr \<Rightarrow>
          (case sr group' of
             None \<Rightarrow> Map.empty
           | Some g \<Rightarrow>
               (case as_dict h g of
                  None \<Rightarrow> Map.empty
                | Some gd \<Rightarrow> day_rules h gd day)))"

definition has_key :: "'a heap \<Rightarrow> 'a val \<Rightarrow> string \<Rightarrow> bool" where
  "has_key h d key = (case as_dict h d of None \<Rightarrow> False | Some m \<Rightarrow> m key \<noteq> None)"

definition rules_of_day :: "'a heap \<Rightarrow> 'a val \<Rightarrow> string \<Rightarrow> 'a rules option" where
  "rules_of_day h r day =
     (case as_dict h r of
        None \<Rightarrow> None
      | Some d \<Rightarrow> (case d day of None \<Rightarrow> None | Some v \<Rightarrow> as_dict h v))"

text \<open>
  The arguments are as the signature announces them: both are dictionaries, the entry of the
  group (if any) is a dictionary, and so are its \<open>weekday\<close> and \<open>weekend\<close> entries (if any).
\<close>

definition day_wellformed :: "'a heap \<Rightarrow> 'a rules \<Rightarrow> string \<Rightarrow> bool" where
  "day_wellformed h gd day = (case gd day of None \<Rightarrow> True | Some w \<Rightarrow> as_dict h w \<noteq> None)"

definition rules_wellformed :: "'a heap \<Rightarrow> string \<Rightarrow> 'a val \<Rightarrow> 'a val \<Rightarrow> bool" where
  "rules_wellformed h group' specifics_rules base_day_rules =
     (as_dict h base_day_rules \<noteq> None \<and>
      (case as_dict h specifics_rules of
         None \<Rightarrow> False
       | Some sr \<Rightarrow>
           (case sr group' of
              None \<Rightarrow> True
            | Some g \<Rightarrow>
                (case as_dict h g of
                   None \<Rightarrow> False
                 | Some gd \<Rightarrow> day_wellformed h gd ''weekday'' \<and> day_wellformed h gd ''weekend''))))"

text \<open>The heap after a call that succeeds: six new objects, none of the old ones touched.\<close>

definition heap_after :: "'a heap \<Rightarrow> 'a rules \<Rightarrow> 'a rules \<Rightarrow> 'a heap" where
  "heap_after h weekday weekend =
     h @ [Map.empty, Map.empty, weekday, Map.empty, weekend,
          [''weekday'' \<mapsto> Ref (length h + 2), ''weekend'' \<mapsto> Ref (length h + 4)]]"

text \<open>
  An example store: \<open>specifics_rules\<close> at 0 with one group (at 1) that has weekday rules only
  (at 2), and \<open>base_day_rules\<close> at 3.
\<close>

definition example_rules_heap :: "nat heap" where
  "example_rules_heap =
     [[''commuter'' \<mapsto> Ref 1],
      [''weekday'' \<mapsto> Ref 2],
      [''a'' \<mapsto> Atom 5, ''c'' \<mapsto> Atom 6],
      [''a'' \<mapsto> Atom 1, ''b'' \<mapsto> Atom 2]]"

section \<open>oemof/case1\_es\_charger\_limited\_BEV\_dumb.py\<close>

subsection \<open>The network model\<close>

text \<open>
  A series is a column of numbers, one for each timestep; the input table is addressed by
  column name, and a column that is not there is a \<open>KeyError\<close>. Numbers are reals: the
  only arithmetic the program does on them is the product with 4.
\<close>

type_synonym series = "real list"

type_synonym DataFrame = "string \<rightharpoonup> series"

text \<open>
  The objects of \<open>oemof.solph\<close> are kept as the program constructs them: each record
  field is a keyword argument of the constructor, with \<open>None\<close> for an argument the program
  does not pass. \<open>fix_profile\<close> and \<open>max_profile\<close> are the arguments \<open>fix\<close> and \<open>max\<close>
  of \<open>flows.Flow\<close>; \<open>flows_Flow\<close> is \<open>flows.Flow()\<close>. The dictionaries \<open>inputs\<close> and
  \<open>outputs\<close> map a bus to the flow on that connection.
\<close>

datatype Bus = Bus (bus_label: string) (balanced: "bool option")

record Flow =
  fix_profile :: "series option"
  max_profile :: "series option"
  nominal_value :: "real option"
  variable_costs :: "real option"

definition flows_Flow :: Flow where
  "flows_Flow = \<lparr>fix_profile = None, max_profile = None, nominal_value = None, variable_costs = None\<rparr>"

record GenericStorage =
  label :: string
  inputs :: "(Bus \<times> Flow) list"
  outputs :: "(Bus \<times> Flow) list"
  nominal_storage_capacity :: real
  min_storage_level :: real
  max_storage_level :: real
  initial_storage_level :: real
  fixed_losses_absolute :: series

datatype node =
    BusNode Bus
  | Source string "(Bus \<times> Flow) list"
  | Sink string "(Bus \<times> Flow) list"
  | Storage GenericStorage

fun is_storage :: "node \<Rightarrow> bool" where
  "is_storage (Storage g) = True"
| "is_storage n = False"

fun node_label :: "node \<Rightarrow> string" where
  "node_label (BusNode b) = bus_label b"
| "node_label (Source l outs) = l"
| "node_label (Sink l ins) = l"
| "node_label (Storage g) = label g"

fun node_flows :: "node \<Rightarrow> Flow list" where
  "node_flows (BusNode b) = []"
| "node_flows (Source l outs) = map snd outs"
| "node_flows (Sink l ins) = map snd ins"
| "node_flows (Storage g) = map snd (inputs g) @ map snd (outputs g)"

subsection \<open>The solver's answer\<close>

text \<open>
  The members of pyomo's enumerations \<open>SolverStatus\<close> and \<open>TerminationCondition\<close> are
  told apart by their value, which is also how they are printed. What the solver returns is an
  argument of the model: the three fields the program reads (\<open>results.solver.status\<close>,
  \<open>results.solver.termination_condition\<close>, \<open>results.solver.message\<close>) and the values
  that \<open>processing.results\<close> and \<open>processing.meta_results\<close> read back afterwards.
\<close>

datatype SolverStatus = SolverStatus (status_value: string)

datatype TerminationCondition = TerminationCondition (condition_value: string)

definition SolverStatus_ok :: SolverStatus where
  "SolverStatus_ok = SolverStatus ''ok''"

definition TerminationCondition_optimal :: TerminationCondition where
  "TerminationCondition_optimal = TerminationCondition ''optimal''"

record solver_response =
  status :: SolverStatus
  termination_condition :: TerminationCondition
  message :: string
  variable_assignment :: "(string \<times> series) list"
  objective_value :: real

text \<open>The answers that count as a success: status \<open>ok\<close> and termination condition \<open>optimal\<close>.\<close>

definition solved_ok :: "solver_response \<Rightarrow> bool" where
  "solved_ok r = (status r = SolverStatus_ok \<and> termination_condition r = TerminationCondition_optimal)"

subsection \<open>The state of a run\<close>

text \<open>
  \<open>EnergySystem\<close> is \<open>self.es\<close>: its time index (each timestamp as the minutes after
  \<open>start_date\<close>), the nodes added to it in order, and the entries the program stores in
  \<open>es.results\<close>. \<open>EnergySystemModel\<close> holds the attributes of \<open>self\<close> that are set before
  \<open>Model\<close> is called and read by it. \<open>timeseries\<close> holds the five attributes that
  \<open>define_timeseries\<close> sets. \<open>io\<close> is what a run does to the outside: the lines printed, the
  lp-files written, and the dumps written (file name and dumped energy system). The calls of
  \<open>logging.info\<close> are left out.
\<close>

datatype result_entry =
    MainResults "(string \<times> series) list"
  | MetaResults real SolverStatus TerminationCondition

record EnergySystem =
  timeindex :: "nat list"
  infer_last_interval :: bool
  nodes :: "node list"
  results :: "string \<rightharpoonup> result_entry"

record EnergySystemModel =
  dump_filename :: string
  should_dump_results :: bool
  solver :: string
  solver_verbose :: bool
  debug :: bool
  grid_supply :: real
  wallbox_power :: real

record timeseries =
  BEV_state :: series
  PV_load :: series
  demand :: series
  BEV_consumption :: series
  BEV_charging :: series

record OperationalModel =
  compiled_nodes :: "node list"

record SolvedModel =
  operational :: OperationalModel
  solution :: solver_response

record io =
  stdout :: "string list"
  lp_files :: "string list"
  dumps :: "(string \<times> EnergySystem) list"

text \<open>How a run ends: the exception that ended it (if any), \<open>self.es\<close> and the outside at that moment.\<close>

record run =
  raised :: "py_error option"
  final_es :: EnergySystem
  outside :: io

subsection \<open>The methods of EnergySystemModel\<close>

text \<open>
  Each method is a function of the attributes it reads and returns what it assigns.
  \<open>main\<close> gives the attributes after \<open>__init__\<close> and \<open>main\<close> have set them, for the
  \<open>dump_filename\<close> passed to the constructor.
\<close>

definition main :: "string \<Rightarrow> EnergySystemModel" where
  "main dump_filename' =
     \<lparr>dump_filename = dump_filename', should_dump_results = True, solver = ''cbc'',
      solver_verbose = False, debug = False, grid_supply = 30, wallbox_power = 11\<rparr>"

definition start_date :: string where
  "start_date = ''2022-01-01''"

definition periods :: nat where
  "periods = 672"

definition freq :: string where
  "freq = ''15min''"

text \<open>\<open>pd.date_range(start, periods, freq)\<close> with the frequency in minutes.\<close>

definition date_range :: "nat \<Rightarrow> nat \<Rightarrow> nat list" where
  "date_range n step = map (\<lambda>i. i * step) [0..<n]"

definition define_time_index :: EnergySystem where
  "define_time_index =
     \<lparr>timeindex = date_range periods 15, infer_last_interval = True, nodes = [], results = Map.empty\<rparr>"

text \<open>
  \<open>define_timeseries\<close>: the table is what \<open>get_timeseries()\<close> has read from the csv file.
  The five columns are looked up in the order of the source; nothing else is checked.
\<close>

definition column :: "DataFrame \<Rightarrow> string \<Rightarrow> py_error + series" where
  "column df name = (case df name of None \<Rightarrow> Inl (KeyError name) | Some s \<Rightarrow> Inr s)"

definition define_timeseries :: "DataFrame \<Rightarrow> py_error + timeseries" where
  "define_timeseries df_timeseries =
     (case column df_timeseries ''BEV_at_home'' of Inl e \<Rightarrow> Inl e | Inr bev_state \<Rightarrow>
      case column df_timeseries ''PV_kW'' of Inl e \<Rightarrow> Inl e | Inr pv_load \<Rightarrow>
      case column df_timeseries ''Load_kW'' of Inl e \<Rightarrow> Inl e | Inr load \<Rightarrow>
      case column df_timeseries ''consumption'' of Inl e \<Rightarrow> Inl e | Inr consumption \<Rightarrow>
      case column df_timeseries ''charging_power_kW'' of Inl e \<Rightarrow> Inl e | Inr charging \<Rightarrow>
      Inr \<lparr>BEV_state = bev_state, PV_load = pv_load, demand = load,
           BEV_consumption = consumption, BEV_charging = charging\<rparr>)"

definition required_columns :: "string list" where
  "required_columns = [''BEV_at_home'', ''PV_kW'', ''Load_kW'', ''consumption'', ''charging_power_kW'']"

text \<open>\<open>es.add(*nodes)\<close> appends the nodes.\<close>

definition add :: "EnergySystem \<Rightarrow> node list \<Rightarrow> EnergySystem" where
  "add es new_nodes = es\<lparr>nodes := nodes es @ new_nodes\<rparr>"

definition PV_variable_costs :: real where
  "PV_variable_costs = 0"

definition Grid_variable_costs :: real where
  "Grid_variable_costs = 30"

definition Grid_feed_in_costs :: real where
  "Grid_feed_in_costs = - 7.9"

definition Wallbox_variable_costs :: real where
  "Wallbox_variable_costs = 0"

definition b_el :: Bus where
  "b_el = Bus ''electricity'' None"

definition b_bev :: Bus where
  "b_bev = Bus ''mobility'' (Some True)"

definition create_oemof_objects :: "EnergySystemModel \<Rightarrow> timeseries \<Rightarrow> EnergySystem \<Rightarrow> EnergySystem" where
  "create_oemof_objects self ts es =
     (let es = add es [BusNode b_el, BusNode b_bev];
          es = add es [Source ''pv''
                 [(b_el, flows_Flow\<lparr>fix_profile := Some (PV_load ts), nominal_value := Some 1,
                                     variable_costs := Some PV_variable_costs\<rparr>)]];
          wallbox = Source ''wallbox''
                 [(b_bev, flows_Flow\<lparr>max_profile := Some (BEV_state ts),
                                      nominal_value := Some (wallbox_power self),
                                      variable_costs := Some Grid_variable_costs\<rparr>)];
          es = add es [wallbox];
          grid = Source ''grid-supply''
                 [(b_el, flows_Flow\<lparr>variable_costs := Some Grid_variable_costs,
                                     nominal_value := Some (grid_supply self)\<rparr>)];
          es = add es [grid];
          es = add es [Sink ''excess_bel''
                 [(b_el, flows_Flow\<lparr>variable_costs := Some Grid_feed_in_costs\<rparr>)]];
          es = add es [Sink ''demand''
                 [(b_el, flows_Flow\<lparr>fix_profile := Some (demand ts), nominal_value := Some 1\<rparr>)]];
          BEV = Storage \<lparr>label = ''BEV_Storage'',
                          inputs = [(b_bev, flows_Flow)],
                          outputs = [(b_bev, flows_Flow)],
                          nominal_storage_capacity = 45,
                          min_storage_level = 0.4,
                          max_storage_level = 0.95,
                          initial_storage_level = 0.95,
                          fixed_losses_absolute = map (\<lambda>c. c * 4) (BEV_consumption ts)\<rparr>
      in add es [BEV])"

definition flows_of :: "EnergySystem \<Rightarrow> Flow list" where
  "flows_of es = concat (map node_flows (nodes es))"

text \<open>
  \<open>optimise_energysystem\<close>: \<open>Model(self.es)\<close> compiles the network; what oemof does there
  is outside this model, which keeps only the nodes handed over. With \<open>debug\<close> an lp-file is
  written.
\<close>

definition optimise_energysystem :: "EnergySystemModel \<Rightarrow> EnergySystem \<Rightarrow> io \<Rightarrow> OperationalModel \<times> io" where
  "optimise_energysystem self es w =
     (let model = \<lparr>compiled_nodes = nodes es\<rparr>
      in if debug self then (model, w\<lparr>lp_files := lp_files w @ [''basic_example.lp'']\<rparr>)
         else (model, w))"

definition no_entry_sign :: string where
  "no_entry_sign = [CHR 0xE2, CHR 0x9B, CHR 0x94]"

definition solve_failure_message :: "SolverStatus \<Rightarrow> TerminationCondition \<Rightarrow> string \<Rightarrow> string" where
  "solve_failure_message st termination msg =
     [CHR 0x0A] @ cross_mark @ '' The energy system could not find a solution.'' @ [CHR 0x0A]
     @ ''Solver status: '' @ status_value st @ [CHR 0x0A]
     @ ''Termination condition: '' @ condition_value termination @ [CHR 0x0A]
     @ ''Message: '' @ msg @ [CHR 0x0A]
     @ no_entry_sign @ '' Simulation aborted.'' @ [CHR 0x0A]"

text \<open>
  \<open>solve_energysystem\<close>: \<open>response\<close> is what \<open>self.model.solve(...)\<close> returns. The body of
  the \<open>try\<close> raises \<open>RuntimeError\<close> with the message or prints the success line; the handler
  catches \<open>RuntimeError\<close> only, prints the message and calls \<open>exit()\<close>.
\<close>

definition solve_energysystem ::
  "OperationalModel \<Rightarrow> solver_response \<Rightarrow> io \<Rightarrow> (py_error + SolvedModel) \<times> io" where
  "solve_energysystem model response w =
     (let results = response;
          st = status results;
          termination = termination_condition results;
          tried =
            (if st \<noteq> SolverStatus_ok \<or> termination \<noteq> TerminationCondition_optimal
             then Inl (RuntimeError (solve_failure_message st termination (message results)))
             else Inr (w\<lparr>stdout := stdout w @ [check_mark @ '' The model was solved successfully.'']\<rparr>))
      in case tried of
           Inl (RuntimeError e) \<Rightarrow> (Inl SystemExit, w\<lparr>stdout := stdout w @ [e]\<rparr>)
         | Inl e \<Rightarrow> (Inl e, w)
         | Inr w' \<Rightarrow> (Inr \<lparr>operational = model, solution = results\<rparr>, w'))"

definition extract_results :: "SolvedModel \<Rightarrow> EnergySystem \<Rightarrow> EnergySystem" where
  "extract_results model es =
     (let r = solution model;
          es = es\<lparr>results := (results es)(''main'' \<mapsto> MainResults (variable_assignment r))\<rparr>
      in es\<lparr>results := (results es)(''meta'' \<mapsto>
              MetaResults (objective_value r) (status r) (termination_condition r))\<rparr>)"

definition dump_results :: "EnergySystemModel \<Rightarrow> EnergySystem \<Rightarrow> io \<Rightarrow> io" where
  "dump_results self es w =
     (if should_dump_results self then w\<lparr>dumps := dumps w @ [(dump_filename self, es)]\<rparr> else w)"

text \<open>
  \<open>Model\<close> calls the seven methods in order; an exception ends the run where it is raised.
  Its arguments besides \<open>self\<close> are what the run takes from outside: the table that
  \<open>get_timeseries()\<close> reads, the solver's answer, and the outside before the run.
\<close>

definition Model :: "EnergySystemModel \<Rightarrow> DataFrame \<Rightarrow> solver_response \<Rightarrow> io \<Rightarrow> run" where
  "Model self df_timeseries response w =
     (let es = define_time_index in
      case define_timeseries df_timeseries of
        Inl e \<Rightarrow> \<lparr>raised = Some e, final_es = es, outside = w\<rparr>
      | Inr ts \<Rightarrow>
          (let es = create_oemof_objects self ts es;
               (model, w) = optimise_energysystem self es w
           in case solve_energysystem model response w of
                (Inl e, w) \<Rightarrow> \<lparr>raised = Some e, final_es = es, outside = w\<rparr>
              | (Inr solved, w) \<Rightarrow>
                  (let es = extract_results solved es;
                       w = dump_results self es w
                   in \<lparr>raised = None, final_es = es, outside = w\<rparr>)))"

text \<open>
  The network-model construction alone: the steps of \<open>Model\<close> before
  \<open>optimise_energysystem\<close>.
\<close>

definition construct_network :: "EnergySystemModel \<Rightarrow> DataFrame \<Rightarrow> py_error + EnergySystem" where
  "construct_network self df_timeseries =
     (case define_timeseries df_timeseries of
        Inl e \<Rightarrow> Inl e
      | Inr ts \<Rightarrow> Inr (create_oemof_objects self ts define_time_index))"

subsection \<open>Example inputs\<close>

text \<open>
  A table with the five columns and two rows, a solver answer for an infeasible problem and
  one for a solved problem.
\<close>

definition example_table :: DataFrame where
  "example_table =
     [''BEV_at_home'' \<mapsto> [1, 0], ''PV_kW'' \<mapsto> [0, 10], ''Load_kW'' \<mapsto> [5, 5],
      ''consumption'' \<mapsto> [0, 0.5], ''charging_power_kW'' \<mapsto> [0, 0]]"

definition example_series :: timeseries where
  "example_series = \<lparr>BEV_state = [1, 0], PV_load = [0, 10], demand = [5, 5],
                      BEV_consumption = [0, 0.5], BEV_charging = [0, 0]\<rparr>"

definition infeasible_response :: solver_response where
  "infeasible_response =
     \<lparr>status = SolverStatus ''warning'', termination_condition = TerminationCondition ''infeasible'',
      message = ''problem is infeasible'', variable_assignment = [], objective_value = 0\<rparr>"

definition optimal_response :: solver_response where
  "optimal_response =
     \<lparr>status = SolverStatus ''ok'', termination_condition = TerminationCondition ''optimal'',
      message = [], variable_assignment = [(''grid-supply'', [5, 0])], objective_value = 150\<rparr>"

definition empty_io :: io where
  "empty_io = \<lparr>stdout = [], lp_files = [], dumps = []\<rparr>"

section \<open>Properties of the energy system model\<close>

lemma nodes_create_oemof_objects:
  "nodes (create_oemof_objects self ts es) =
     nodes es @
     [BusNode b_el, BusNode b_bev,
      Source ''pv'' [(b_el, \<lparr>fix_profile = Some (PV_load ts), max_profile = None,
                           nominal_value = Some 1, variable_costs = Some PV_variable_costs\<rparr>)],
      Source ''wallbox'' [(b_bev, \<lparr>fix_profile = None, max_profile = Some (BEV_state ts),
                           nominal_value = Some (wallbox_power self), variable_costs = Some Grid_variable_costs\<rparr>)],
      Source ''grid-supply'' [(b_el, \<lparr>fix_profile = None, max_profile = None,
                           nominal_value = Some (grid_supply self), variable_costs = Some Grid_variable_costs\<rparr>)],
      Sink ''excess_bel'' [(b_el, \<lparr>fix_profile = None, max_profile = None,
                           nominal_value = None, variable_costs = Some Grid_feed_in_costs\<rparr>)],
      Sink ''demand'' [(b_el, \<lparr>fix_profile = Some (demand ts), max_profile = None,
                           nominal_value = Some 1, variable_costs = None\<rparr>)],
      Storage \<lparr>label = ''BEV_Storage'', inputs = [(b_bev, flows_Flow)], outputs = [(b_bev, flows_Flow)],
                nominal_storage_capacity = 45, min_storage_level = 0.4, max_storage_level = 0.95,
                initial_storage_level = 0.95,
                fixed_losses_absolute = map (\<lambda>c. c * 4) (BEV_consumption ts)\<rparr>]"
  by (simp add: create_oemof_objects_def add_def flows_Flow_def)

lemma results_create_oemof_objects: "results (create_oemof_objects self ts es) = results es"
  by (simp add: create_oemof_objects_def add_def)

lemma solve_energysystem_cases:
  "solve_energysystem model response w =
     (if solved_ok response
      then (Inr \<lparr>operational = model, solution = response\<rparr>,
            w\<lparr>stdout := stdout w @ [check_mark @ '' The model was solved successfully.'']\<rparr>)
      else (Inl SystemExit,
            w\<lparr>stdout := stdout w @ [solve_failure_message (status response)
                                      (termination_condition response) (message response)]\<rparr>))"
  by (simp add: solve_energysystem_def solved_ok_def Let_def)

lemma failure_message_carries:
  "sublist (status_value st) (solve_failure_message st termination msg)"
  "sublist (condition_value termination) (solve_failure_message st termination msg)"
  "sublist msg (solve_failure_message st termination msg)"
proof -
  let ?a = "[CHR 0x0A] @ cross_mark @ '' The energy system could not find a solution.'' @ [CHR 0x0A]
             @ ''Solver status: ''"
  let ?b = "[CHR 0x0A] @ ''Termination condition: ''"
  let ?c = "[CHR 0x0A] @ ''Message: ''"
  let ?d = "[CHR 0x0A] @ no_entry_sign @ '' Simulation aborted.'' @ [CHR 0x0A]"
  have eq: "solve_failure_message st termination msg =
              ?a @ status_value st @ ?b @ condition_value termination @ ?c @ msg @ ?d"
    by (simp add: solve_failure_message_def)
  show "sublist (status_value st) (solve_failure_message st termination msg)"
    unfolding eq by (rule sublist_appendI)
  have "sublist (condition_value termination)
          ((?a @ status_value st @ ?b) @ condition_value termination @ (?c @ msg @ ?d))"
    by (rule sublist_appendI)
  then show "sublist (condition_value termination) (solve_failure_message st termination msg)"
    unfolding eq by (simp only: append_assoc)
  have "sublist msg ((?a @ status_value st @ ?b @ condition_value termination @ ?c) @ msg @ ?d)"
    by (rule sublist_appendI)
  then show "sublist msg (solve_failure_message st termination msg)"
    unfolding eq by (simp only: append_assoc)
qed

lemma define_timeseries_example: "define_timeseries example_table = Inr example_series"
  by (simp add: define_timeseries_def example_table_def column_def example_series_def)

lemma define_timeseries_present:
  "list_all (\<lambda>c. df_timeseries c \<noteq> None) required_columns \<Longrightarrow> \<exists>ts. define_timeseries df_timeseries = Inr ts"
  by (auto simp: required_columns_def define_timeseries_def column_def)

text \<open>
  C1. When the five series are there, so that the run reaches the solver: the run returns
  normally exactly when the solver's status is \<open>ok\<close> and its termination condition is
  \<open>optimal\<close>. Then the results are extracted into \<open>es.results\<close> and the energy system is
  dumped under \<open>dump_filename\<close>. For every other answer the run ends with \<open>SystemExit\<close>,
  after printing the message of the \<open>RuntimeError\<close>, which contains the status, the
  termination condition and the solver's message; nothing is stored under \<open>main\<close> or
  \<open>meta\<close> and nothing is dumped.
\<close>

theorem solve_status_classification:
  assumes ts: "define_timeseries df_timeseries = Inr ts"
  shows "(raised (Model (main dump_filename') df_timeseries response w) = None) = solved_ok response
   \<and> (if solved_ok response
      then results (final_es (Model (main dump_filename') df_timeseries response w)) ''main''
             = Some (MainResults (variable_assignment response))
         \<and> dumps (outside (Model (main dump_filename') df_timeseries response w))
             = dumps w @ [(dump_filename', final_es (Model (main dump_filename') df_timeseries response w))]
      else raised (Model (main dump_filename') df_timeseries response w) = Some SystemExit
         \<and> stdout (outside (Model (main dump_filename') df_timeseries response w))
             = stdout w @ [solve_failure_message (status response) (termination_condition response)
                             (message response)]
         \<and> results (final_es (Model (main dump_filename') df_timeseries response w)) ''main'' = None
         \<and> results (final_es (Model (main dump_filename') df_timeseries response w)) ''meta'' = None
         \<and> dumps (outside (Model (main dump_filename') df_timeseries response w)) = dumps w)
   \<and> sublist (status_value (status response))
        (solve_failure_message (status response) (termination_condition response) (message response))
   \<and> sublist (condition_value (termination_condition response))
        (solve_failure_message (status response) (termination_condition response) (message response))
   \<and> sublist (message response)
        (solve_failure_message (status response) (termination_condition response) (message response))"
proof -
  let ?self = "main dump_filename'"
  let ?es = "create_oemof_objects ?self ts define_time_index"
  have opt: "optimise_energysystem ?self ?es w = (\<lparr>compiled_nodes = nodes ?es\<rparr>, w)"
    by (simp add: optimise_energysystem_def main_def)
  have empty: "results ?es = Map.empty"
    by (simp add: results_create_oemof_objects define_time_index_def)
  show ?thesis
  proof (cases "solved_ok response")
    case True
    have "Model ?self df_timeseries response w =
            \<lparr>raised = None,
             final_es = extract_results \<lparr>operational = \<lparr>compiled_nodes = nodes ?es\<rparr>, solution = response\<rparr> ?es,
             outside = dump_results ?self
                 (extract_results \<lparr>operational = \<lparr>compiled_nodes = nodes ?es\<rparr>, solution = response\<rparr> ?es)
                 (w\<lparr>stdout := stdout w @ [check_mark @ '' The model was solved successfully.'']\<rparr>)\<rparr>"
      by (simp add: Model_def ts opt solve_energysystem_cases True Let_def)
    then show ?thesis using True
      by (simp add: failure_message_carries extract_results_def dump_results_def main_def)
  next
    case False
    have "Model ?self df_timeseries response w =
            \<lparr>raised = Some SystemExit, final_es = ?es,
             outside = w\<lparr>stdout := stdout w @ [solve_failure_message (status response)
                                      (termination_condition response) (message response)]\<rparr>\<rparr>"
      by (simp add: Model_def ts opt solve_energysystem_cases False Let_def)
    then show ?thesis using False
      by (simp add: failure_message_carries empty)
  qed
qed

theorem solve_status_classification_witness:
  "define_timeseries example_table = Inr example_series
   \<and> \<not> solved_ok infeasible_response
   \<and> raised (Model (main ''case1'') example_table infeasible_response empty_io) = Some SystemExit
   \<and> stdout (outside (Model (main ''case1'') example_table infeasible_response empty_io))
       = [solve_failure_message (SolverStatus ''warning'') (TerminationCondition ''infeasible'')
            ''problem is infeasible'']
   \<and> results (final_es (Model (main ''case1'') example_table infeasible_response empty_io)) ''main'' = None
   \<and> dumps (outside (Model (main ''case1'') example_table infeasible_response empty_io)) = []
   \<and> solved_ok optimal_response
   \<and> raised (Model (main ''case1'') example_table optimal_response empty_io) = None
   \<and> results (final_es (Model (main ''case1'') example_table optimal_response empty_io)) ''main''
       = Some (MainResults [(''grid-supply'', [5, 0])])
   \<and> map fst (dumps (outside (Model (main ''case1'') example_table optimal_response empty_io))) = [''case1'']"
proof -
  have bad: "\<not> solved_ok infeasible_response"
    by (simp add: solved_ok_def infeasible_response_def SolverStatus_ok_def)
  have good: "solved_ok optimal_response"
    by (simp add: solved_ok_def optimal_response_def SolverStatus_ok_def TerminationCondition_optimal_def)
  from solve_status_classification[OF define_timeseries_example, of "''case1''" infeasible_response empty_io]
    bad
  have failing: "raised (Model (main ''case1'') example_table infeasible_response empty_io) = Some SystemExit
   \<and> stdout (outside (Model (main ''case1'') example_table infeasible_response empty_io))
       = [solve_failure_message (SolverStatus ''warning'') (TerminationCondition ''infeasible'')
            ''problem is infeasible'']
   \<and> results (final_es (Model (main ''case1'') example_table infeasible_response empty_io)) ''main'' = None
   \<and> dumps (outside (Model (main ''case1'') example_table infeasible_response empty_io)) = []"
    by (simp add: infeasible_response_def empty_io_def)
  from solve_status_classification[OF define_timeseries_example, of "''case1''" optimal_response empty_io]
    good
  have passing: "raised (Model (main ''case1'') example_table optimal_response empty_io) = None
   \<and> results (final_es (Model (main ''case1'') example_table optimal_response empty_io)) ''main''
       = Some (MainResults [(''grid-supply'', [5, 0])])
   \<and> map fst (dumps (outside (Model (main ''case1'') example_table optimal_response empty_io))) = [''case1'']"
    by (simp add: optimal_response_def empty_io_def)
  from failing passing bad good define_timeseries_example show ?thesis by simp
qed

text \<open>
  C2 as stated fails for series that are present but short: every required series of
  \<open>example_table\<close> has 2 entries, fewer than the 672 timestamps of the time index, and the
  network model is constructed all the same.
\<close>

theorem short_series_accepted:
  "map (map_option length \<circ> example_table) required_columns = [Some 2, Some 2, Some 2, Some 2, Some 2]
   \<and> 2 < periods
   \<and> length (timeindex define_time_index) = periods
   \<and> define_timeseries example_table = Inr example_series
   \<and> construct_network (main ''case1'') example_table
       = Inr (create_oemof_objects (main ''case1'') example_series define_time_index)"
proof -
  have "map (map_option length \<circ> example_table) required_columns = [Some 2, Some 2, Some 2, Some 2, Some 2]"
    by (simp add: required_columns_def example_table_def)
  moreover have "2 < periods \<and> length (timeindex define_time_index) = periods"
    by (simp add: periods_def define_time_index_def date_range_def)
  moreover have "construct_network (main ''case1'') example_table =
                   Inr (create_oemof_objects (main ''case1'') example_series define_time_index)"
    by (simp add: construct_network_def define_timeseries_example)
  ultimately show ?thesis using define_timeseries_example by simp
qed

text \<open>
  C2, as the code has it. When one of the five required series is missing, the run ends in
  \<open>define_timeseries\<close> with the \<open>KeyError\<close> of a missing series: no node has been added,
  nothing is compiled, printed or written. When the five series are there, the network model
  is constructed, whatever their length.
\<close>

theorem define_timeseries_missing_column:
  "(if \<exists>c\<in>set required_columns. df_timeseries c = None
    then \<exists>m\<in>set required_columns. df_timeseries m = None
           \<and> define_timeseries df_timeseries = Inl (KeyError m)
           \<and> construct_network self df_timeseries = Inl (KeyError m)
           \<and> Model self df_timeseries response w =
               \<lparr>raised = Some (KeyError m), final_es = define_time_index, outside = w\<rparr>
    else \<exists>ts. define_timeseries df_timeseries = Inr ts
           \<and> construct_network self df_timeseries = Inr (create_oemof_objects self ts define_time_index))"
proof (cases "\<exists>c\<in>set required_columns. df_timeseries c = None")
  case True
  then have "\<exists>m\<in>set required_columns. df_timeseries m = None \<and> define_timeseries df_timeseries = Inl (KeyError m)"
    by (auto simp: required_columns_def define_timeseries_def column_def split: option.splits)
  then have "\<exists>m\<in>set required_columns. df_timeseries m = None
           \<and> define_timeseries df_timeseries = Inl (KeyError m)
           \<and> construct_network self df_timeseries = Inl (KeyError m)
           \<and> Model self df_timeseries response w =
               \<lparr>raised = Some (KeyError m), final_es = define_time_index, outside = w\<rparr>"
    by (auto simp: construct_network_def Model_def)
  with True show ?thesis by (simp only: if_True)
next
  case False
  then have "list_all (\<lambda>c. df_timeseries c \<noteq> None) required_columns"
    by (simp add: list_all_iff)
  then obtain ts where ts: "define_timeseries df_timeseries = Inr ts"
    using define_timeseries_present by blast
  then have "\<exists>ts. define_timeseries df_timeseries = Inr ts
           \<and> construct_network self df_timeseries = Inr (create_oemof_objects self ts define_time_index)"
    by (simp add: construct_network_def)
  with False show ?thesis by (simp only: if_False)
qed

theorem define_timeseries_missing_column_witness:
  "(\<exists>c\<in>set required_columns. (example_table(''consumption'' := None)) c = None)
   \<and> define_timeseries (example_table(''consumption'' := None)) = Inl (KeyError ''consumption'')
   \<and> raised (Model (main ''case1'') (example_table(''consumption'' := None)) infeasible_response empty_io)
       = Some (KeyError ''consumption'')"
proof -
  let ?t = "example_table(''consumption'' := None)"
  have missing: "\<exists>c\<in>set required_columns. ?t c = None"
    by (simp add: required_columns_def)
  from define_timeseries_missing_column[of ?t "main ''case1''" infeasible_response empty_io] missing
  obtain m where m: "m \<in> set required_columns" "?t m = None"
    "define_timeseries ?t = Inl (KeyError m)"
    "Model (main ''case1'') ?t infeasible_response empty_io =
       \<lparr>raised = Some (KeyError m), final_es = define_time_index, outside = empty_io\<rparr>"
    by (auto simp only: if_True)
  from m(1,2) have "m = ''consumption''"
    by (auto simp: required_columns_def example_table_def split: if_splits)
  with m missing show ?thesis by simp
qed

text \<open>
  C3. The constructed network has exactly one storage node: \<open>BEV_Storage\<close>, whose input and
  output are both on the mobility bus, with minimum level 0.4, maximum level 0.95, initial
  level 0.95, and a fixed loss that is the consumption series times 4 at every timestep.
\<close>

theorem storage_is_BEV_Storage:
  "filter is_storage (nodes (create_oemof_objects self ts define_time_index)) =
     [Storage \<lparr>label = ''BEV_Storage'', inputs = [(b_bev, flows_Flow)], outputs = [(b_bev, flows_Flow)],
                nominal_storage_capacity = 45, min_storage_level = 0.4, max_storage_level = 0.95,
                initial_storage_level = 0.95,
                fixed_losses_absolute = map (\<lambda>c. c * 4) (BEV_consumption ts)\<rparr>]
   \<and> bus_label b_bev = ''mobility''
   \<and> list_all2 (\<lambda>loss c. loss = c * 4) (map (\<lambda>c. c * 4) (BEV_consumption ts)) (BEV_consumption ts)"
  by (simp add: nodes_create_oemof_objects define_time_index_def b_bev_def list_all2_map1 list_all2_same)

text \<open>
  C4. The constructed network has one node labelled \<open>wallbox\<close>: a source with a single
  output, on the mobility bus (not the electricity bus), with no fixed profile, the
  EV-at-home series as its \<open>max\<close> profile, the wallbox power (11) as nominal value, and the
  grid's variable costs, the same as on the flow of \<open>grid-supply\<close>.
\<close>

theorem wallbox_source_feeds_mobility:
  "filter (\<lambda>n. node_label n = ''wallbox'') (nodes (create_oemof_objects self ts define_time_index)) =
     [Source ''wallbox'' [(b_bev, \<lparr>fix_profile = None, max_profile = Some (BEV_state ts),
                           nominal_value = Some (wallbox_power self), variable_costs = Some Grid_variable_costs\<rparr>)]]
   \<and> bus_label b_bev = ''mobility'' \<and> bus_label b_el = ''electricity''
   \<and> wallbox_power (main dump_filename') = 11
   \<and> filter (\<lambda>n. node_label n = ''grid-supply'') (nodes (create_oemof_objects self ts define_time_index)) =
     [Source ''grid-supply'' [(b_el, \<lparr>fix_profile = None, max_profile = None,
                           nominal_value = Some (grid_supply self), variable_costs = Some Grid_variable_costs\<rparr>)]]"
  by (simp add: nodes_create_oemof_objects define_time_index_def b_bev_def b_el_def main_def)

text \<open>
  C6. The constructed network has seven flows, and none of them has both a fixed profile
  and a \<open>max\<close> profile.
\<close>

theorem flows_fix_or_max:
  "list_all (\<lambda>f. fix_profile f = None \<or> max_profile f = None)
     (flows_of (create_oemof_objects self ts define_time_index))
   \<and> length (flows_of (create_oemof_objects self ts define_time_index)) = 7"
  by (simp add: flows_of_def nodes_create_oemof_objects define_time_index_def flows_Flow_def)

section \<open>Properties of the profile functions\<close>

lemma consumption_test_iff:
  "(isinstance_dict v \<and> dict_get v ''kind'' = Some (PyStr ''consumption'')) \<longleftrightarrow>
   (\<exists>d. v = PyDict d \<and> map_of d ''kind'' = Some (PyStr ''consumption''))"
  by (cases v) auto

text \<open>
  C7. An item is in the result of \<open>get_consumption_profiles\<close> (either copy) exactly when
  it is an item of the database whose value is a dictionary with \<open>kind == "consumption"\<close>;
  it keeps its name.
\<close>

theorem get_consumption_profiles_exact:
  "((k, v) \<in> set (get_consumption_profiles db) \<longleftrightarrow>
      (k, v) \<in> set db \<and> (\<exists>d. v = PyDict d \<and> map_of d ''kind'' = Some (PyStr ''consumption'')))
   \<and> calculate_consumption_get_consumption_profiles db = get_consumption_profiles db"
  by (simp add: get_consumption_profiles_def calculate_consumption_get_consumption_profiles_def
      consumption_test_iff)

lemma update_fresh_key: "k \<notin> fst ` set acc \<Longrightarrow> AList.update k v acc = acc @ [(k, v)]"
  by (induction acc) auto

lemma timeserie_loop_distinct:
  "distinct (map fst items) \<Longrightarrow> fst ` set acc \<inter> fst ` set items = {} \<Longrightarrow>
   timeserie_loop items (acc, out) =
     (acc @ List.map_filter timeseries_item items,
      out @ map (missing_timeseries_warning \<circ> fst)
              (filter (\<lambda>(key, profile). map_of profile ''timeseries'' = None) items))"
proof (induction items arbitrary: acc out)
  case Nil
  then show ?case by simp
next
  case (Cons item items)
  obtain key profile where item: "item = (key, profile)" by (cases item)
  show ?case
  proof (cases "map_of profile ''timeseries''")
    case None
    have "fst ` set acc \<inter> fst ` set items = {}" using Cons.prems(2) by auto
    with Cons.IH[of acc] Cons.prems(1) None item show ?thesis
      by (simp add: timeseries_item_def)
  next
    case (Some ts)
    have fresh: "key \<notin> fst ` set acc" using Cons.prems(2) item by auto
    have "fst ` set (acc @ [(key, ts)]) \<inter> fst ` set items = {}"
      using Cons.prems item by auto
    with Cons.IH[of "acc @ [(key, ts)]"] Cons.prems(1) Some item fresh show ?thesis
      by (simp add: timeseries_item_def update_fresh_key)
  qed
qed

text \<open>
  C8. For a dictionary of profiles (its keys are distinct), the result holds exactly the
  profiles that have a \<open>timeseries\<close> entry, each under its name with that entry, in the
  order of the argument. Every profile without the entry is skipped and reported by one
  printed line, the warning sign followed by \<open>'timeseries' not found in profile '<name>'.\<close>
  with the profile's name; the profiles after it are still extracted. When no profile has the
  entry, one more line says so. The function has no failing branch: it returns for every
  argument.
\<close>

theorem get_timeserie_from_consumption_profiles_exact:
  assumes "distinct (map fst consumption_profiles)"
  shows "fst (get_timeserie_from_consumption_profiles consumption_profiles out) =
           List.map_filter (\<lambda>(key, profile). map_option (Pair key) (map_of profile ''timeseries''))
             consumption_profiles
       \<and> snd (get_timeserie_from_consumption_profiles consumption_profiles out) =
           out @ map (\<lambda>(key, profile).
                        [CHR 0xE2, CHR 0x9A, CHR 0xA0, CHR 0xEF, CHR 0xB8, CHR 0x8F]
                        @ '' 'timeseries' not found in profile '' @ [CHR 0x27] @ key @ [CHR 0x27] @ ''.'')
                   (filter (\<lambda>(key, profile). map_of profile ''timeseries'' = None) consumption_profiles)
               @ (if list_all (\<lambda>(key, profile). map_of profile ''timeseries'' = None) consumption_profiles
                  then [[CHR 0xE2, CHR 0x9D, CHR 0x8C]
                        @ '' No 'timeseries' found in any profile. Please ensure consumption was calculated.'']
                  else [])"
proof -
  have item: "timeseries_item = (\<lambda>(key, profile). map_option (Pair key) (map_of profile ''timeseries''))"
    by (simp add: timeseries_item_def)
  have warn: "missing_timeseries_warning \<circ> fst =
                (\<lambda>(key, profile). [CHR 0xE2, CHR 0x9A, CHR 0xA0, CHR 0xEF, CHR 0xB8, CHR 0x8F]
                   @ '' 'timeseries' not found in profile '' @ [CHR 0x27] @ key @ [CHR 0x27] @ ''.'')"
    by (auto simp: fun_eq_iff missing_timeseries_warning_def warning_sign_def)
  have none: "(List.map_filter timeseries_item consumption_profiles = []) =
                list_all (\<lambda>(key, profile). map_of profile ''timeseries'' = None) consumption_profiles"
    by (induction consumption_profiles) (auto simp: timeseries_item_def split: option.splits)
  from timeserie_loop_distinct[OF assms, of "[]" out]
  have "fst (get_timeserie_from_consumption_profiles consumption_profiles out) =
           List.map_filter timeseries_item consumption_profiles
       \<and> snd (get_timeserie_from_consumption_profiles consumption_profiles out) =
           out @ map (missing_timeseries_warning \<circ> fst)
                   (filter (\<lambda>(key, profile). map_of profile ''timeseries'' = None) consumption_profiles)
               @ (if List.map_filter timeseries_item consumption_profiles = [] then [no_timeseries_message] else [])"
    by (simp add: get_timeserie_from_consumption_profiles_def)
  then show ?thesis
    unfolding none warn unfolding item no_timeseries_message_def cross_mark_def by simp
qed

theorem get_timeserie_from_consumption_profiles_witness:
  "distinct (map fst [(''p1'', [(''timeseries'', 7::nat)]), (''p2'', [(''kind'', 1)]),
                      (''p3'', [(''kind'', 1), (''timeseries'', 9)])])
   \<and> get_timeserie_from_consumption_profiles
       [(''p1'', [(''timeseries'', 7::nat)]), (''p2'', [(''kind'', 1)]),
        (''p3'', [(''kind'', 1), (''timeseries'', 9)])] []
     = ([(''p1'', 7), (''p3'', 9)],
        [[CHR 0xE2, CHR 0x9A, CHR 0xA0, CHR 0xEF, CHR 0xB8, CHR 0x8F]
         @ '' 'timeseries' not found in profile 'p2'.''])"
proof -
  let ?profiles = "[(''p1'', [(''timeseries'', 7::nat)]), (''p2'', [(''kind'', 1)]),
                    (''p3'', [(''kind'', 1), (''timeseries'', 9)])]"
  have d: "distinct (map fst ?profiles)" by simp
  from get_timeserie_from_consumption_profiles_exact[OF d, of "[]"] d show ?thesis
    by (simp add: prod_eq_iff)
qed








lemma as_dict_append: "as_dict h v = Some d \<Longrightarrow> as_dict (h @ h') v = Some d"
  by (auto simp: as_dict_def nth_append split: val.splits if_splits)

lemma as_dict_new: "as_dict (h @ [d]) (Ref (length h)) = Some d"
  by (simp add: as_dict_def)

lemma as_dict_new2: "as_dict (h @ [d, d']) (Ref (Suc (length h))) = Some d'"
  by (simp add: as_dict_def nth_append)

lemma day_rules_append:
  "day_wellformed h gd day \<Longrightarrow> day_rules (h @ ext) gd day = day_rules h gd day"
  by (auto simp: day_wellformed_def day_rules_def as_dict_append split: option.splits)

lemma day_wellformed_append:
  "day_wellformed h gd day \<Longrightarrow> day_wellformed (h @ ext) gd day"
  by (auto simp: day_wellformed_def as_dict_append split: option.splits)

lemma merged_rules_ok:
  assumes base: "as_dict h base_day_rules = Some base"
    and specs: "as_dict h group_specs = Some gd"
    and day: "day_wellformed h gd day"
  shows "merged_rules h base_day_rules group_specs day =
           Inr (Ref (Suc (length h)), h @ [Map.empty, base ++ day_rules h gd day])"
proof (cases "gd day")
  case None
  then show ?thesis using base specs
    by (simp add: merged_rules_def new_dict_def py_get_def as_dict_append as_dict_new day_rules_def)
next
  case (Some w)
  with day obtain wd where wd: "as_dict h w = Some wd"
    by (auto simp: day_wellformed_def)
  show ?thesis using base specs Some wd
    by (simp add: merged_rules_def new_dict_def py_get_def as_dict_append day_rules_def)
qed

lemma get_rules_for_group_specs:
  assumes base: "as_dict h base_day_rules = Some base"
    and get: "py_get (h @ [Map.empty]) specifics_rules group' (Ref (length h)) = Inr group_specs"
    and specs: "as_dict (h @ [Map.empty]) group_specs = Some gd"
    and wd: "day_wellformed h gd ''weekday''" and we: "day_wellformed h gd ''weekend''"
  shows "get_rules_for_group h group' specifics_rules base_day_rules =
           Inr (Ref (length h + 5),
                heap_after h (base ++ day_rules h gd ''weekday'') (base ++ day_rules h gd ''weekend''))"
proof -
  let ?h1 = "h @ [Map.empty]"
  let ?wdr = "base ++ day_rules h gd ''weekday''"
  let ?wer = "base ++ day_rules h gd ''weekend''"
  let ?h2 = "?h1 @ [Map.empty, ?wdr]"
  have base1: "as_dict ?h1 base_day_rules = Some base" using base by (rule as_dict_append)
  have base2: "as_dict ?h2 base_day_rules = Some base" using base1 by (rule as_dict_append)
  have specs2: "as_dict ?h2 group_specs = Some gd" using specs by (rule as_dict_append)
  have wd1: "day_wellformed ?h1 gd ''weekday''" using wd by (rule day_wellformed_append)
  have we1: "day_wellformed ?h1 gd ''weekend''" using we by (rule day_wellformed_append)
  have we2: "day_wellformed ?h2 gd ''weekend''" using we1 by (rule day_wellformed_append)
  have r1: "day_rules ?h1 gd ''weekday'' = day_rules h gd ''weekday''"
    using wd by (rule day_rules_append)
  have "day_rules ?h2 gd ''weekend'' = day_rules ?h1 gd ''weekend''"
    using we1 by (rule day_rules_append)
  also have "\<dots> = day_rules h gd ''weekend''" using we by (rule day_rules_append)
  finally have r2: "day_rules ?h2 gd ''weekend'' = day_rules h gd ''weekend''" .
  have m1: "merged_rules ?h1 base_day_rules group_specs ''weekday'' = Inr (Ref (Suc (length ?h1)), ?h2)"
    using merged_rules_ok[OF base1 specs wd1] by (simp only: r1)
  have m2: "merged_rules ?h2 base_day_rules group_specs ''weekend'' =
              Inr (Ref (Suc (length ?h2)), ?h2 @ [Map.empty, ?wer])"
    using merged_rules_ok[OF base2 specs2 we2] by (simp only: r2)
  show ?thesis
    using get m1 m2 unfolding get_rules_for_group_def new_dict_def heap_after_def
    by (simp add: eval_nat_numeral)
qed

lemma rules_of_day_after:
  "rules_of_day (heap_after h weekday weekend) (Ref (length h + 5)) ''weekday'' = Some weekday"
  "rules_of_day (heap_after h weekday weekend) (Ref (length h + 5)) ''weekend'' = Some weekend"
  "map_option dom (as_dict (heap_after h weekday weekend) (Ref (length h + 5))) = Some {''weekday'', ''weekend''}"
  "take (length h) (heap_after h weekday weekend) = h"
  by (auto simp: rules_of_day_def heap_after_def as_dict_def nth_append)

text \<open>
  C10. For dictionaries as the signature announces them, \<open>get_rules_for_group\<close> returns a
  new dictionary with the keys \<open>weekday\<close> and \<open>weekend\<close>; each holds a new dictionary that
  is \<open>base_day_rules\<close> overlaid with the group's rules for that day, the group's value winning
  on a shared key (\<open>++\<close>). For a group that \<open>specifics_rules\<close> does not have, both equal
  \<open>base_day_rules\<close>. Every object of the store before the call is unchanged after it, so
  neither argument (nor any dictionary inside them) is mutated.
\<close>

theorem get_rules_for_group_overlay:
  assumes wf: "rules_wellformed h group' specifics_rules base_day_rules"
    and base: "as_dict h base_day_rules = Some base"
  shows "\<exists>result h'. get_rules_for_group h group' specifics_rules base_day_rules = Inr (result, h')
     \<and> map_option dom (as_dict h' result) = Some {''weekday'', ''weekend''}
     \<and> rules_of_day h' result ''weekday'' = Some (base ++ group_day_rules h specifics_rules group' ''weekday'')
     \<and> rules_of_day h' result ''weekend'' = Some (base ++ group_day_rules h specifics_rules group' ''weekend'')
     \<and> (\<not> has_key h specifics_rules group' \<longrightarrow>
          rules_of_day h' result ''weekday'' = Some base \<and> rules_of_day h' result ''weekend'' = Some base)
     \<and> take (length h) h' = h"
proof -
  from wf obtain sr where sr: "as_dict h specifics_rules = Some sr"
    by (auto simp: rules_wellformed_def split: option.splits)
  have sr1: "as_dict (h @ [Map.empty]) specifics_rules = Some sr" using sr by (rule as_dict_append)
  let ?wd = "base ++ group_day_rules h specifics_rules group' ''weekday''"
  let ?we = "base ++ group_day_rules h specifics_rules group' ''weekend''"
  let ?run = "get_rules_for_group h group' specifics_rules base_day_rules =
               Inr (Ref (length h + 5), heap_after h ?wd ?we)"
  let ?absent = "has_key h specifics_rules group' \<or> (?wd = base \<and> ?we = base)"
  have both: "?run \<and> ?absent"
  proof (cases "sr group'")
    case None
    have get: "py_get (h @ [Map.empty]) specifics_rules group' (Ref (length h)) = Inr (Ref (length h))"
      using sr1 None by (simp add: py_get_def)
    have specs: "as_dict (h @ [Map.empty]) (Ref (length h)) = Some Map.empty" by (rule as_dict_new)
    have wfd: "day_wellformed h Map.empty day" for day by (simp add: day_wellformed_def)
    have empty: "group_day_rules h specifics_rules group' day = Map.empty" for day
      using sr None by (simp add: group_day_rules_def)
    have dr: "day_rules h Map.empty day = Map.empty" for day by (simp add: day_rules_def)
    have ?run
      using get_rules_for_group_specs[OF base get specs wfd wfd] by (simp only: empty dr)
    moreover have ?absent by (simp add: empty)
    ultimately show ?thesis by (rule conjI)
  next
    case (Some g)
    with wf sr obtain gd where gd: "as_dict h g = Some gd"
      and wd: "day_wellformed h gd ''weekday''" and we: "day_wellformed h gd ''weekend''"
      by (auto simp: rules_wellformed_def split: option.splits)
    have get: "py_get (h @ [Map.empty]) specifics_rules group' (Ref (length h)) = Inr g"
      using sr1 Some by (simp add: py_get_def)
    have specs: "as_dict (h @ [Map.empty]) g = Some gd" using gd by (rule as_dict_append)
    have rules: "group_day_rules h specifics_rules group' day = day_rules h gd day" for day
      using sr Some gd by (simp add: group_day_rules_def)
    have ?run
      using get_rules_for_group_specs[OF base get specs wd we] by (simp only: rules)
    moreover have ?absent using sr Some by (simp add: has_key_def)
    ultimately show ?thesis by (rule conjI)
  qed
  show ?thesis
  proof (intro exI conjI impI)
    show "get_rules_for_group h group' specifics_rules base_day_rules =
               Inr (Ref (length h + 5), heap_after h ?wd ?we)" using both by (rule conjunct1)
    show "map_option dom (as_dict (heap_after h ?wd ?we) (Ref (length h + 5))) = Some {''weekday'', ''weekend''}"
      by (rule rules_of_day_after)
    show "rules_of_day (heap_after h ?wd ?we) (Ref (length h + 5)) ''weekday'' = Some ?wd"
      by (rule rules_of_day_after)
    show "rules_of_day (heap_after h ?wd ?we) (Ref (length h + 5)) ''weekend'' = Some ?we"
      by (rule rules_of_day_after)
    show "take (length h) (heap_after h ?wd ?we) = h" by (rule rules_of_day_after)
    assume a: "\<not> has_key h specifics_rules group'"
    with both have eq: "?wd = base" "?we = base" by simp_all
    show "rules_of_day (heap_after h ?wd ?we) (Ref (length h + 5)) ''weekday'' = Some base"
      using rules_of_day_after(1)[of h ?wd ?we] eq by simp
    show "rules_of_day (heap_after h ?wd ?we) (Ref (length h + 5)) ''weekend'' = Some base"
      using rules_of_day_after(2)[of h ?wd ?we] eq by simp
  qed
qed


theorem get_rules_for_group_overlay_witness:
  "rules_wellformed example_rules_heap ''commuter'' (Ref 0) (Ref 3) \<and>
   as_dict example_rules_heap (Ref 3) = Some [''a'' \<mapsto> Atom 1, ''b'' \<mapsto> Atom 2] \<and>
   (\<exists>result h'. get_rules_for_group example_rules_heap ''commuter'' (Ref 0) (Ref 3) = Inr (result, h')
      \<and> rules_of_day h' result ''weekday'' = Some [''a'' \<mapsto> Atom 5, ''b'' \<mapsto> Atom 2, ''c'' \<mapsto> Atom 6]
      \<and> rules_of_day h' result ''weekend'' = Some [''a'' \<mapsto> Atom 1, ''b'' \<mapsto> Atom 2]
      \<and> take (length example_rules_heap) h' = example_rules_heap)"
proof -
  have wf: "rules_wellformed example_rules_heap ''commuter'' (Ref 0) (Ref 3)"
    by (simp add: example_rules_heap_def rules_wellformed_def as_dict_def day_wellformed_def)
  have base: "as_dict example_rules_heap (Ref 3) = Some [''a'' \<mapsto> Atom 1, ''b'' \<mapsto> Atom 2]"
    by (simp add: example_rules_heap_def as_dict_def)
  have wd: "[''a'' \<mapsto> Atom 1, ''b'' \<mapsto> Atom 2] ++ group_day_rules example_rules_heap (Ref 0) ''commuter'' ''weekday''
              = [''a'' \<mapsto> Atom 5, ''b'' \<mapsto> Atom (2::nat), ''c'' \<mapsto> Atom 6]"
    by (auto simp: example_rules_heap_def group_day_rules_def day_rules_def as_dict_def map_add_def)
  have we: "[''a'' \<mapsto> Atom 1, ''b'' \<mapsto> Atom 2] ++ group_day_rules example_rules_heap (Ref 0) ''commuter'' ''weekend''
              = [''a'' \<mapsto> Atom 1, ''b'' \<mapsto> Atom (2::nat)]"
    by (auto simp: example_rules_heap_def group_day_rules_def day_rules_def as_dict_def map_add_def)
  from get_rules_for_group_overlay[OF wf base]
  obtain result h' where
    "get_rules_for_group example_rules_heap ''commuter'' (Ref 0) (Ref 3) = Inr (result, h')"
    "rules_of_day h' result ''weekday'' = Some [''a'' \<mapsto> Atom 5, ''b'' \<mapsto> Atom 2, ''c'' \<mapsto> Atom 6]"
    "rules_of_day h' result ''weekend'' = Some [''a'' \<mapsto> Atom 1, ''b'' \<mapsto> Atom 2]"
    "take (length example_rules_heap) h' = example_rules_heap"
    unfolding wd we by (elim exE conjE)
  then have "\<exists>result h'. get_rules_for_group example_rules_heap ''commuter'' (Ref 0) (Ref 3) = Inr (result, h')
      \<and> rules_of_day h' result ''weekday'' = Some [''a'' \<mapsto> Atom 5, ''b'' \<mapsto> Atom 2, ''c'' \<mapsto> Atom 6]
      \<and> rules_of_day h' result ''weekend'' = Some [''a'' \<mapsto> Atom 1, ''b'' \<mapsto> Atom 2]
      \<and> take (length example_rules_heap) h' = example_rules_heap"
    by (intro exI conjI)
  with wf base show ?thesis by (intro conjI)
qed

end
